theory Spec2Isabelle
  imports Main "HOL-Library.Sublist"
begin

section \<open>Mongobject: a facade over a MongoDB client\<close>

text \<open>
  The class \<^verbatim>\<open>Mongobject\<close> of \<^verbatim>\<open>src/mongobject.py\<close> keeps a client handle and two
  attributes, \<^verbatim>\<open>database\<close> and \<^verbatim>\<open>collection\<close>, and forwards every operation to the
  client. The client library (pymongo) is not part of the repository: it is a parameter
  of the model, a record of functions over the state \<open>'w\<close> of the servers. Exceptions are
  values of a sum type. A method that touches the server returns its outcome together
  with the server state it leaves, also when it raises.
\<close>

subsection \<open>Python values\<close>

datatype error = AttributeError | TypeError | KeyError | IndexError

text \<open>A document is a Python dict from field names to values, in insertion order.\<close>

type_synonym 'v document = "(string \<times> 'v) list"

definition dict_get :: "('k \<times> 'a) list \<Rightarrow> 'k \<Rightarrow> 'a option" where
  "dict_get d k = map_of d k"

definition dict_del :: "('k \<times> 'a) list \<Rightarrow> 'k \<Rightarrow> error + ('k \<times> 'a) list" where
  "dict_del d k =
     (if k \<in> set (map fst d) then Inr (filter (\<lambda>kv. fst kv \<noteq> k) d) else Inl KeyError)"

fun dict_set :: "('k \<times> 'a) list \<Rightarrow> 'k \<Rightarrow> 'a \<Rightarrow> ('k \<times> 'a) list" where
  "dict_set [] k v = [(k, v)]"
| "dict_set (kv # d) k v = (if fst kv = k then (k, v) # d else kv # dict_set d k v)"

text \<open>
  The argument \<^verbatim>\<open>data\<close> of \<^verbatim>\<open>insert\<close>: \<^verbatim>\<open>None\<close> (its default), a dict or a list of
  dicts, as its docstring types it.
\<close>

datatype 'v pydata =
  PyNone | is_dict: PyDict (the_dict: "'v document") | is_list: PyList (the_list: "'v document list")

text \<open>Truth values of Python: \<^verbatim>\<open>None\<close>, the empty string, dict and list, and 0 are false.\<close>

fun truthy_data :: "'v pydata \<Rightarrow> bool" where
  "truthy_data PyNone = False"
| "truthy_data (PyDict d) = (d \<noteq> [])"
| "truthy_data (PyList ds) = (ds \<noteq> [])"

text \<open>\<^verbatim>\<open>data[0]\<close>: a dict has field names for keys, so 0 is not one of them.\<close>

fun getitem0 :: "'v pydata \<Rightarrow> error + 'v document" where
  "getitem0 PyNone = Inl TypeError"
| "getitem0 (PyDict d) = Inl KeyError"
| "getitem0 (PyList []) = Inl IndexError"
| "getitem0 (PyList (d # ds)) = Inr d"

fun truthy_str :: "string option \<Rightarrow> bool" where
  "truthy_str None = False"
| "truthy_str (Some s) = (s \<noteq> [])"

fun truthy_int :: "int option \<Rightarrow> bool" where
  "truthy_int None = False"
| "truthy_int (Some n) = (n \<noteq> 0)"

subsection \<open>The client library\<close>

text \<open>
  A client is known by the arguments \<^verbatim>\<open>MongoClient\<close> was called with: the positional
  host (a host name or a URI), the positional port and the keyword \<^verbatim>\<open>ssl\<close>, each
  \<open>None\<close> when the call does not pass it.
\<close>

record mongo_client =
  host_arg :: "string option"
  port_arg :: "int option"
  ssl_arg :: "bool option"

text \<open>\<^verbatim>\<open>self.instance[self.database][self.collection]\<close>: client, database name, collection name.\<close>

type_synonym handle = "mongo_client \<times> string \<times> string"

datatype 'v InsertOneResult = InsertOneResult (inserted_id: "'v option")
datatype 'v InsertManyResult = InsertManyResult (inserted_ids: "'v list")
datatype UpdateResult = UpdateResult (matched_count: nat) (modified_count: nat)
datatype DeleteResult = DeleteResult (deleted_count: nat)
datatype ReturnDocument = BEFORE | AFTER

type_synonym sort_spec = "(string \<times> int) list"

text \<open>
  The calls the class makes on the client, on a database and on a collection. Each takes
  the state of the servers and, when it can change it, returns the new one. The counts of
  a result are numbers of documents. \<open>keys\<close> is \<^verbatim>\<open>self.instance.keys()\<close> and \<open>database_keys\<close>
  is \<^verbatim>\<open>self.instance[name].keys()\<close>: the class calls them as it would on a mapping, and
  they answer with the names or raise, as the client decides.
\<close>

record ('v, 'w) driver =
  client_bool :: "mongo_client \<Rightarrow> bool"
  close :: "mongo_client \<Rightarrow> 'w \<Rightarrow> 'w"
  keys :: "mongo_client \<Rightarrow> 'w \<Rightarrow> error + string list"
  database_keys :: "mongo_client \<Rightarrow> string \<Rightarrow> 'w \<Rightarrow> error + string list"
  client_drop_database :: "mongo_client \<Rightarrow> string \<Rightarrow> 'w \<Rightarrow> 'w"
  database_drop_collection :: "mongo_client \<Rightarrow> string \<Rightarrow> string \<Rightarrow> 'w \<Rightarrow> 'w"
  insert_one :: "handle \<Rightarrow> 'v document \<Rightarrow> 'w \<Rightarrow> 'v InsertOneResult \<times> 'w"
  insert_many :: "handle \<Rightarrow> 'v document list \<Rightarrow> 'w \<Rightarrow> 'v InsertManyResult \<times> 'w"
  replace_one :: "handle \<Rightarrow> 'v document \<Rightarrow> 'v document \<Rightarrow> bool \<Rightarrow> 'w \<Rightarrow> UpdateResult \<times> 'w"
  update_one :: "handle \<Rightarrow> 'v document \<Rightarrow> 'v document \<Rightarrow> bool \<Rightarrow> 'w \<Rightarrow> UpdateResult \<times> 'w"
  update_many :: "handle \<Rightarrow> 'v document \<Rightarrow> 'v document \<Rightarrow> bool \<Rightarrow> 'w \<Rightarrow> UpdateResult \<times> 'w"
  delete_one :: "handle \<Rightarrow> 'v document \<Rightarrow> 'w \<Rightarrow> DeleteResult \<times> 'w"
  delete_many :: "handle \<Rightarrow> 'v document \<Rightarrow> 'w \<Rightarrow> DeleteResult \<times> 'w"
  collection_find :: "handle \<Rightarrow> 'v document \<Rightarrow> 'v document option \<Rightarrow> int \<Rightarrow> int \<Rightarrow>
    sort_spec option \<Rightarrow> 'w \<Rightarrow> 'v document list \<times> 'w"
  find_one :: "handle \<Rightarrow> 'v document \<Rightarrow> 'v document option \<Rightarrow> int \<Rightarrow>
    sort_spec option \<Rightarrow> 'w \<Rightarrow> 'v document option \<times> 'w"
  find_one_and_delete :: "handle \<Rightarrow> 'v document \<Rightarrow> 'v document option \<Rightarrow> int \<Rightarrow>
    sort_spec option \<Rightarrow> 'w \<Rightarrow> 'v document option \<times> 'w"
  find_one_and_replace :: "handle \<Rightarrow> 'v document \<Rightarrow> 'v document \<Rightarrow> bool \<Rightarrow>
    'v document option \<Rightarrow> int \<Rightarrow> sort_spec option \<Rightarrow> ReturnDocument \<Rightarrow> 'w \<Rightarrow>
    'v document option \<times> 'w"
  find_one_and_update :: "handle \<Rightarrow> 'v document \<Rightarrow> 'v document \<Rightarrow> bool \<Rightarrow>
    'v document option \<Rightarrow> int \<Rightarrow> sort_spec option \<Rightarrow> ReturnDocument \<Rightarrow> 'w \<Rightarrow>
    'v document option \<times> 'w"
  count_documents :: "handle \<Rightarrow> 'v document \<Rightarrow> int \<Rightarrow> int \<Rightarrow> 'w \<Rightarrow> nat \<times> 'w"
  collection_distinct :: "handle \<Rightarrow> string \<Rightarrow> 'v document option \<Rightarrow> 'w \<Rightarrow> 'v list \<times> 'w"

subsection \<open>The object\<close>

text \<open>
  The attributes of a \<^verbatim>\<open>Mongobject\<close>. \<^verbatim>\<open>__init__\<close> assigns \<^verbatim>\<open>self.database\<close> and
  \<^verbatim>\<open>self.collection\<close> only when the argument is true, and the class has no attribute
  of these names: \<open>None\<close> is the attribute that was never assigned, and reading it raises
  \<^verbatim>\<open>AttributeError\<close>.
\<close>

record mongobject =
  inst :: mongo_client
  database :: "string option"
  collection :: "string option"

subsection \<open>Connecting\<close>

text \<open>
  \<^verbatim>\<open>_connect_database\<close> (lines 67 to 84). The value it assigns to \<^verbatim>\<open>self.instance\<close>
  is the result. The first test is \<^verbatim>\<open>uri is not None and uri.startswith('mongodb://')\<close>.
  In the third branch \<^verbatim>\<open>'mongodb://' + host\<close> raises \<^verbatim>\<open>TypeError\<close> when
  \<^verbatim>\<open>host\<close> is \<^verbatim>\<open>None\<close>.
\<close>

definition uri_with_scheme :: "string option \<Rightarrow> bool" where
  "uri_with_scheme uri = (case uri of None \<Rightarrow> False | Some u \<Rightarrow> prefix ''mongodb://'' u)"

definition connect_database ::
  "string option \<Rightarrow> string option \<Rightarrow> int option \<Rightarrow> error + mongo_client" where
  "connect_database uri host port =
     (if uri_with_scheme uri then
        Inr \<lparr>host_arg = uri, port_arg = None, ssl_arg = Some True\<rparr>
      else if truthy_str host \<and> truthy_int port then
        Inr \<lparr>host_arg = host, port_arg = port, ssl_arg = Some True\<rparr>
      else if truthy_str host \<or> truthy_str uri then
        (case host of
           None \<Rightarrow> Inl TypeError
         | Some h \<Rightarrow>
             Inr \<lparr>host_arg = Some (''mongodb://'' @ h @ ''/?ssl=true''),
                  port_arg = None, ssl_arg = None\<rparr>)
      else
        Inr \<lparr>host_arg = None, port_arg = None, ssl_arg = Some True\<rparr>)"

text \<open>
  A call asks for an encrypted transport by the keyword \<^verbatim>\<open>ssl=True\<close> or by the option
  \<^verbatim>\<open>ssl=true\<close> that ends the URI.
\<close>

definition requests_ssl :: "mongo_client \<Rightarrow> bool" where
  "requests_ssl c =
     (ssl_arg c = Some True \<or>
      (case host_arg c of None \<Rightarrow> False | Some h \<Rightarrow> suffix ''?ssl=true'' h))"

text \<open>\<^verbatim>\<open>__init__\<close> (lines 10 to 36): the attributes of the new object.\<close>

definition init ::
  "string option \<Rightarrow> string option \<Rightarrow> int option \<Rightarrow> string option \<Rightarrow> string option \<Rightarrow>
   error + mongobject" where
  "init uri host port db coll =
     (case connect_database uri host port of
        Inl e \<Rightarrow> Inl e
      | Inr c \<Rightarrow>
          Inr \<lparr>inst = c,
               database = (if truthy_str db then db else None),
               collection = (if truthy_str coll then coll else None)\<rparr>)"

text \<open>
  The names that lines 32 to 36 bind. They are local variables of \<^verbatim>\<open>__init__\<close>: the
  assignments are neither to \<^verbatim>\<open>self\<close> nor in the body of the class.
\<close>

definition init_locals :: "(string \<times> int) list" where
  "init_locals =
     [(''FIND'', 1), (''FIND_ONE'', 2), (''FIND_ONE_AND_DELETE'', 3),
      (''FIND_ONE_AND_REPLACE'', 4), (''FIND_ONE_AND_UPDATE'', 5)]"

text \<open>
  The data attributes of the class \<^verbatim>\<open>Mongobject\<close> itself: its body holds method
  definitions only.
\<close>

definition class_attrs :: "(string \<times> int) list" where
  "class_attrs = []"

definition getattr :: "(string \<times> int) list \<Rightarrow> string \<Rightarrow> error + int" where
  "getattr ns name = (case map_of ns name of None \<Rightarrow> Inl AttributeError | Some v \<Rightarrow> Inr v)"

text \<open>\<^verbatim>\<open>set_instance\<close> (lines 103 to 116).\<close>

definition set_instance ::
  "('v, 'w) driver \<Rightarrow> string option \<Rightarrow> string option \<Rightarrow> int option \<Rightarrow> mongobject \<Rightarrow> 'w \<Rightarrow>
   (error + mongobject) \<times> 'w" where
  "set_instance drv uri host port s w =
     (let w1 = (if client_bool drv (inst s) then close drv (inst s) w else w)
      in case connect_database uri host port of
           Inl e \<Rightarrow> (Inl e, w1)
         | Inr c \<Rightarrow> (Inr (s\<lparr>inst := c\<rparr>), w1))"

subsection \<open>Selection and existence checks\<close>

text \<open>\<^verbatim>\<open>set_database\<close> and \<^verbatim>\<open>set_collection\<close> (lines 126 to 150).\<close>

definition set_database :: "string option \<Rightarrow> mongobject \<Rightarrow> mongobject" where
  "set_database db s = (if truthy_str db then s\<lparr>database := db\<rparr> else s)"

definition set_collection :: "string option \<Rightarrow> mongobject \<Rightarrow> mongobject" where
  "set_collection coll s = (if truthy_str coll then s\<lparr>collection := coll\<rparr> else s)"

definition get_database :: "mongobject \<Rightarrow> error + string" where
  "get_database s = (case database s of None \<Rightarrow> Inl AttributeError | Some d \<Rightarrow> Inr d)"

definition get_collection :: "mongobject \<Rightarrow> error + string" where
  "get_collection s = (case collection s of None \<Rightarrow> Inl AttributeError | Some c \<Rightarrow> Inr c)"

text \<open>
  \<^verbatim>\<open>_check_database\<close> (line 92): \<^verbatim>\<open>self.database\<close> is read first, then
  \<^verbatim>\<open>self.instance.keys()\<close> is called, then membership is tested.
  \<^verbatim>\<open>_check_collection\<close> (line 101): the right operand of \<^verbatim>\<open>and\<close> is evaluated only
  when the left one is true; it reads \<^verbatim>\<open>self.collection\<close>, then \<^verbatim>\<open>self.database\<close>, then
  calls \<^verbatim>\<open>keys()\<close> on the database.
\<close>

definition check_database :: "('v, 'w) driver \<Rightarrow> mongobject \<Rightarrow> 'w \<Rightarrow> error + bool" where
  "check_database drv s w =
     (case get_database s of
        Inl e \<Rightarrow> Inl e
      | Inr d \<Rightarrow>
          (case keys drv (inst s) w of
             Inl e \<Rightarrow> Inl e
           | Inr ks \<Rightarrow> Inr (d \<in> set ks)))"

definition check_collection :: "('v, 'w) driver \<Rightarrow> mongobject \<Rightarrow> 'w \<Rightarrow> error + bool" where
  "check_collection drv s w =
     (case check_database drv s w of
        Inl e \<Rightarrow> Inl e
      | Inr b \<Rightarrow>
          if b then
            (case get_collection s of
               Inl e \<Rightarrow> Inl e
             | Inr c \<Rightarrow>
                 (case get_database s of
                    Inl e \<Rightarrow> Inl e
                  | Inr d \<Rightarrow>
                      (case database_keys drv (inst s) d w of
                         Inl e \<Rightarrow> Inl e
                       | Inr ks \<Rightarrow> Inr (c \<in> set ks))))
          else Inr False)"

text \<open>\<^verbatim>\<open>self.instance[self.database][self.collection]\<close>, the receiver of every data call.\<close>

definition coll_handle :: "mongobject \<Rightarrow> error + handle" where
  "coll_handle s =
     (case get_database s of
        Inl e \<Rightarrow> Inl e
      | Inr d \<Rightarrow> (case get_collection s of Inl e \<Rightarrow> Inl e | Inr c \<Rightarrow> Inr (inst s, d, c)))"

subsection \<open>Dropping\<close>

text \<open>\<^verbatim>\<open>drop_database\<close> (lines 188 to 198) and \<^verbatim>\<open>drop_collection\<close> (lines 213 to 222).\<close>

definition drop_database ::
  "('v, 'w) driver \<Rightarrow> mongobject \<Rightarrow> 'w \<Rightarrow> (error + mongobject) \<times> 'w" where
  "drop_database drv s w =
     (case check_database drv s w of
        Inl e \<Rightarrow> (Inl e, w)
      | Inr b \<Rightarrow>
          if b then
            (case get_database s of
               Inl e \<Rightarrow> (Inl e, w)
             | Inr d \<Rightarrow>
                 (Inr (set_collection None (set_database None s)),
                  client_drop_database drv (inst s) d w))
          else (Inr s, w))"

definition drop_collection ::
  "('v, 'w) driver \<Rightarrow> mongobject \<Rightarrow> 'w \<Rightarrow> (error + mongobject) \<times> 'w" where
  "drop_collection drv s w =
     (case check_collection drv s w of
        Inl e \<Rightarrow> (Inl e, w)
      | Inr b \<Rightarrow>
          if b then
            (case coll_handle s of
               Inl e \<Rightarrow> (Inl e, w)
             | Inr h \<Rightarrow>
                 (Inr (set_collection None s),
                  database_drop_collection drv (fst h) (fst (snd h)) (snd (snd h)) w))
          else (Inr s, w))"

subsection \<open>Writing\<close>

text \<open>\<^verbatim>\<open>insert\<close> (lines 224 to 246).\<close>

definition insert_m ::
  "('v, 'w) driver \<Rightarrow> 'v pydata \<Rightarrow> mongobject \<Rightarrow> 'w \<Rightarrow> (error + bool) \<times> 'w" where
  "insert_m drv data s w =
     (if truthy_data data then
        (case check_collection drv s w of
           Inl e \<Rightarrow> (Inl e, w)
         | Inr b \<Rightarrow>
             if b then
               (case coll_handle s of
                  Inl e \<Rightarrow> (Inl e, w)
                | Inr h \<Rightarrow>
                    if is_list data \<and> length (the_list data) > 1 then
                      (let (result, w') = insert_many drv h (the_list data) w
                       in (Inr (length (inserted_ids result) = length (the_list data)), w'))
                    else if is_dict data then
                      (let (result, w') = insert_one drv h (the_dict data) w
                       in (Inr (inserted_id result \<noteq> None), w'))
                    else
                      (case getitem0 data of
                         Inl e \<Rightarrow> (Inl e, w)
                       | Inr d \<Rightarrow>
                           (let (result, w') = insert_one drv h d w
                            in (Inr (inserted_id result \<noteq> None), w'))))
             else (Inr False, w))
      else (Inr False, w))"

text \<open>
  The loop of \<^verbatim>\<open>replace\<close> (lines 264 to 270). Nothing bounds the number of rounds, so
  the loop is a partial function: \<open>None\<close> is the run that never returns.
\<close>

partial_function (option) replace_loop ::
  "('v, 'w) driver \<Rightarrow> handle \<Rightarrow> 'v document \<Rightarrow> 'v document \<Rightarrow> bool \<Rightarrow> 'w \<Rightarrow> (bool \<times> 'w) option"
  where
  "replace_loop drv h flt replacement upsert w =
     (let rw = replace_one drv h flt replacement upsert w
      in if matched_count (fst rw) = modified_count (fst rw) then Some (True, snd rw)
         else if modified_count (fst rw) = 0 then Some (False, snd rw)
         else replace_loop drv h flt replacement upsert (snd rw))"

declare replace_loop.simps [code]

text \<open>\<^verbatim>\<open>replace\<close> (lines 248 to 272).\<close>

definition replace ::
  "('v, 'w) driver \<Rightarrow> 'v document \<Rightarrow> 'v document \<Rightarrow> bool \<Rightarrow> bool \<Rightarrow> mongobject \<Rightarrow> 'w \<Rightarrow>
   ((error + bool) \<times> 'w) option" where
  "replace drv flt replacement upsert only_one s w =
     (case check_collection drv s w of
        Inl e \<Rightarrow> Some (Inl e, w)
      | Inr b \<Rightarrow>
          if b then
            (case coll_handle s of
               Inl e \<Rightarrow> Some (Inl e, w)
             | Inr h \<Rightarrow>
                 if only_one then
                   (let (result, w') = replace_one drv h flt replacement upsert w
                    in Some (Inr (modified_count result = 1), w'))
                 else
                   map_option (\<lambda>(r, w'). (Inr r, w'))
                     (replace_loop drv h flt replacement upsert w))
          else Some (Inr False, w))"

text \<open>\<^verbatim>\<open>update\<close> (lines 274 to 292).\<close>

definition update ::
  "('v, 'w) driver \<Rightarrow> 'v document \<Rightarrow> 'v document \<Rightarrow> bool \<Rightarrow> bool \<Rightarrow> mongobject \<Rightarrow> 'w \<Rightarrow>
   (error + bool) \<times> 'w" where
  "update drv flt upd upsert only_one s w =
     (case check_collection drv s w of
        Inl e \<Rightarrow> (Inl e, w)
      | Inr b \<Rightarrow>
          if b then
            (case coll_handle s of
               Inl e \<Rightarrow> (Inl e, w)
             | Inr h \<Rightarrow>
                 if only_one then
                   (let (result, w') = update_one drv h flt upd upsert w
                    in (Inr (modified_count result = 1), w'))
                 else
                   (let (result, w') = update_many drv h flt upd upsert w
                    in (Inr (modified_count result = matched_count result), w')))
          else (Inr False, w))"

text \<open>\<^verbatim>\<open>delete\<close> (lines 294 to 310).\<close>

definition delete ::
  "('v, 'w) driver \<Rightarrow> 'v document \<Rightarrow> bool \<Rightarrow> mongobject \<Rightarrow> 'w \<Rightarrow> (error + bool) \<times> 'w" where
  "delete drv flt only_one s w =
     (case check_collection drv s w of
        Inl e \<Rightarrow> (Inl e, w)
      | Inr b \<Rightarrow>
          if b then
            (case coll_handle s of
               Inl e \<Rightarrow> (Inl e, w)
             | Inr h \<Rightarrow>
                 (let (result, w') =
                    (if only_one then delete_one drv h flt w else delete_many drv h flt w)
                  in (Inr (deleted_count result > 0), w')))
          else (Inr False, w))"

subsection \<open>Reading\<close>

text \<open>
  The result of \<^verbatim>\<open>find\<close>: a dict whose keys are what \<^verbatim>\<open>res.get('_id')\<close> returns, a
  value or \<^verbatim>\<open>None\<close>.
\<close>

type_synonym 'v find_result = "('v option \<times> 'v document) list"

text \<open>
  The loop of lines 345 to 348 over a cursor. \<^verbatim>\<open>dic = res\<close> binds a second name to the
  same dict, so \<^verbatim>\<open>del dic['_id']\<close> (a \<^verbatim>\<open>KeyError\<close> when the key is missing) removes the
  key from \<^verbatim>\<open>res\<close> too, and \<^verbatim>\<open>res.get('_id')\<close> reads the dict after the removal.
\<close>

fun process_cursor :: "'v find_result \<Rightarrow> 'v document list \<Rightarrow> error + 'v find_result" where
  "process_cursor find_result [] = Inr find_result"
| "process_cursor find_result (res # rest) =
     (case dict_del res ''_id'' of
        Inl e \<Rightarrow> Inl e
      | Inr dic \<Rightarrow> process_cursor (dict_set find_result (dict_get dic ''_id'') dic) rest)"

text \<open>
  The same loop over the result of a \<^verbatim>\<open>find_one\<close> call, a dict or \<^verbatim>\<open>None\<close>: \<^verbatim>\<open>None\<close> is
  not iterable, and iterating a dict yields its keys, strings, on which \<^verbatim>\<open>del\<close> raises
  \<^verbatim>\<open>TypeError\<close>.
\<close>

definition process_document :: "'v document option \<Rightarrow> error + 'v find_result" where
  "process_document result =
     (case result of
        None \<Rightarrow> Inl TypeError
      | Some d \<Rightarrow> (case d of [] \<Rightarrow> Inr [] | kv # rest \<Rightarrow> Inl TypeError))"

text \<open>
  \<^verbatim>\<open>find\<close> (lines 312 to 352), over the namespace \<open>ns\<close> in which \<^verbatim>\<open>Mongobject.FIND\<close> and
  the other four names are looked up, one comparison after the other.
\<close>

definition find_in ::
  "(string \<times> int) list \<Rightarrow> ('v, 'w) driver \<Rightarrow> 'v document \<Rightarrow> 'v document option \<Rightarrow> int \<Rightarrow> int \<Rightarrow>
   sort_spec option \<Rightarrow> int \<Rightarrow> 'v document \<Rightarrow> bool \<Rightarrow> bool \<Rightarrow> mongobject \<Rightarrow> 'w \<Rightarrow>
   (error + 'v find_result) \<times> 'w" where
  "find_in ns drv flt projection skip limit srt find_option doc upsert return_document_before s w =
     (case check_collection drv s w of
        Inl e \<Rightarrow> (Inl e, w)
      | Inr b \<Rightarrow>
        if b then
         (case coll_handle s of
            Inl e \<Rightarrow> (Inl e, w)
          | Inr h \<Rightarrow>
         (case getattr ns ''FIND'' of
            Inl e \<Rightarrow> (Inl e, w)
          | Inr k1 \<Rightarrow>
          if find_option = k1 then
            (let (result, w') = collection_find drv h flt projection skip limit srt w
             in (process_cursor [] result, w'))
          else
         (case getattr ns ''FIND_ONE'' of
            Inl e \<Rightarrow> (Inl e, w)
          | Inr k2 \<Rightarrow>
          if find_option = k2 then
            (let (result, w') = find_one drv h flt projection skip srt w
             in (process_document result, w'))
          else
         (case getattr ns ''FIND_ONE_AND_DELETE'' of
            Inl e \<Rightarrow> (Inl e, w)
          | Inr k3 \<Rightarrow>
          if find_option = k3 then
            (let (result, w') = find_one_and_delete drv h flt projection skip srt w
             in (process_document result, w'))
          else
         (case getattr ns ''FIND_ONE_AND_REPLACE'' of
            Inl e \<Rightarrow> (Inl e, w)
          | Inr k4 \<Rightarrow>
          if find_option = k4 then
            (let (result, w') = find_one_and_replace drv h flt doc upsert projection skip srt
                                  (if return_document_before then BEFORE else AFTER) w
             in (process_document result, w'))
          else
         (case getattr ns ''FIND_ONE_AND_UPDATE'' of
            Inl e \<Rightarrow> (Inl e, w)
          | Inr k5 \<Rightarrow>
          if find_option = k5 then
            (let (result, w') = find_one_and_update drv h flt doc upsert projection skip srt
                                  (if return_document_before then BEFORE else AFTER) w
             in (process_document result, w'))
          else (Inr [], w)))))))
        else (Inr [], w))"

text \<open>The method as the class has it: the names are looked up in the class.\<close>

definition find_m ::
  "('v, 'w) driver \<Rightarrow> 'v document \<Rightarrow> 'v document option \<Rightarrow> int \<Rightarrow> int \<Rightarrow>
   sort_spec option \<Rightarrow> int \<Rightarrow> 'v document \<Rightarrow> bool \<Rightarrow> bool \<Rightarrow> mongobject \<Rightarrow> 'w \<Rightarrow>
   (error + 'v find_result) \<times> 'w" where
  "find_m = find_in class_attrs"

text \<open>\<^verbatim>\<open>count\<close> (lines 354 to 366) and \<^verbatim>\<open>distinct\<close> (lines 368 to 379).\<close>

definition count ::
  "('v, 'w) driver \<Rightarrow> 'v document \<Rightarrow> int \<Rightarrow> int \<Rightarrow> mongobject \<Rightarrow> 'w \<Rightarrow> (error + int) \<times> 'w" where
  "count drv flt skip limit s w =
     (case check_collection drv s w of
        Inl e \<Rightarrow> (Inl e, w)
      | Inr b \<Rightarrow>
          if b then
            (case coll_handle s of
               Inl e \<Rightarrow> (Inl e, w)
             | Inr h \<Rightarrow>
                 (let (n, w') = count_documents drv h flt skip limit w in (Inr (int n), w')))
          else (Inr (- 1), w))"

definition distinct_m ::
  "('v, 'w) driver \<Rightarrow> string \<Rightarrow> 'v document option \<Rightarrow> mongobject \<Rightarrow> 'w \<Rightarrow>
   (error + 'v list) \<times> 'w" where
  "distinct_m drv key flt s w =
     (case check_collection drv s w of
        Inl e \<Rightarrow> (Inl e, w)
      | Inr b \<Rightarrow>
          if b then
            (case coll_handle s of
               Inl e \<Rightarrow> (Inl e, w)
             | Inr h \<Rightarrow>
                 (let (vs, w') = collection_distinct drv h key flt w in (Inr vs, w')))
          else (Inr [], w))"

subsection \<open>The rounds of the replace loop\<close>

text \<open>
  The state of the servers after \<open>n\<close> calls of \<^verbatim>\<open>replace_one\<close> with the same arguments,
  and the result of the call that follows them (call number \<open>n\<close>, counting from 0).
\<close>

fun replace_rounds ::
  "('v, 'w) driver \<Rightarrow> handle \<Rightarrow> 'v document \<Rightarrow> 'v document \<Rightarrow> bool \<Rightarrow> nat \<Rightarrow> 'w \<Rightarrow> 'w" where
  "replace_rounds drv h flt replacement upsert 0 w = w"
| "replace_rounds drv h flt replacement upsert (Suc n) w =
     replace_rounds drv h flt replacement upsert n (snd (replace_one drv h flt replacement upsert w))"

definition round_result ::
  "('v, 'w) driver \<Rightarrow> handle \<Rightarrow> 'v document \<Rightarrow> 'v document \<Rightarrow> bool \<Rightarrow> nat \<Rightarrow> 'w \<Rightarrow> UpdateResult"
  where
  "round_result drv h flt replacement upsert n w =
     fst (replace_one drv h flt replacement upsert (replace_rounds drv h flt replacement upsert n w))"

subsection \<open>The precedence of the connection parameters, in the words of the specification\<close>

text \<open>
  An explicit URI wins; else host and port; else the host alone, wrapped into a URI;
  else the default connection.
\<close>

definition resolve_spec :: "string option \<Rightarrow> string option \<Rightarrow> int option \<Rightarrow> mongo_client" where
  "resolve_spec uri host port =
     (case uri of
        Some u \<Rightarrow> \<lparr>host_arg = Some u, port_arg = None, ssl_arg = Some True\<rparr>
      | None \<Rightarrow>
          (case host of
             Some h \<Rightarrow>
               (case port of
                  Some p \<Rightarrow> \<lparr>host_arg = Some h, port_arg = Some p, ssl_arg = Some True\<rparr>
                | None \<Rightarrow>
                    \<lparr>host_arg = Some (''mongodb://'' @ h @ ''/?ssl=true''),
                     port_arg = None, ssl_arg = None\<rparr>)
           | None \<Rightarrow> \<lparr>host_arg = None, port_arg = None, ssl_arg = Some True\<rparr>))"

subsection \<open>The client of pymongo\<close>

text \<open>
  The client that \<^verbatim>\<open>_connect_database\<close> builds is a \<^verbatim>\<open>MongoClient\<close> of pymongo. It has no
  method \<^verbatim>\<open>keys\<close>: reading the attribute \<^verbatim>\<open>keys\<close> of a client gives the database of that
  name, reading it on a database gives the collection of that name, and calling either
  raises \<^verbatim>\<open>TypeError\<close> (the object is not callable). The specification notes the same
  of line 92: the client handle is not a mapping. \<open>no_keys drv\<close> is the client \<open>drv\<close>
  with the two calls answering as pymongo does.
\<close>

definition no_keys :: "('v, 'w) driver \<Rightarrow> ('v, 'w) driver" where
  "no_keys drv =
     drv\<lparr>keys := (\<lambda>c w. Inl TypeError), database_keys := (\<lambda>c d w. Inl TypeError)\<rparr>"

subsection \<open>A small client for concrete runs\<close>

text \<open>
  A server kept in memory: the databases with the names of their collections, the
  documents stored, and the results the coming replace and update calls will report.
  Its client is the mapping the class takes a client for: \<open>keys\<close> answers with the names.
  Filters are ignored. It serves to run the class on concrete inputs.
\<close>

record stub_world =
  names :: "(string \<times> string list) list"
  docs :: "int document list"
  answers :: "UpdateResult list"

definition stub_modify :: "stub_world \<Rightarrow> UpdateResult \<times> stub_world" where
  "stub_modify w =
     (case answers w of
        [] \<Rightarrow> (UpdateResult 0 0, w)
      | a # rest \<Rightarrow> (a, w\<lparr>answers := rest\<rparr>))"

definition stub_first :: "stub_world \<Rightarrow> int document option \<times> stub_world" where
  "stub_first w = ((case docs w of [] \<Rightarrow> None | d # rest \<Rightarrow> Some d), w)"

definition stub_insert :: "int document list \<Rightarrow> stub_world \<Rightarrow> int list \<times> stub_world" where
  "stub_insert ds w =
     (let ids = map int [length (docs w) ..< length (docs w) + length ds]
      in (ids, w\<lparr>docs := docs w @ map2 (\<lambda>i d. (''_id'', i) # d) ids ds\<rparr>))"

definition stub :: "(int, stub_world) driver" where
  "stub =
     \<lparr>client_bool = (\<lambda>c. True),
      close = (\<lambda>c w. w),
      keys = (\<lambda>c w. Inr (map fst (names w))),
      database_keys =
        (\<lambda>c d w. Inr (case map_of (names w) d of None \<Rightarrow> [] | Some cs \<Rightarrow> cs)),
      client_drop_database = (\<lambda>c d w. w\<lparr>names := filter (\<lambda>p. fst p \<noteq> d) (names w)\<rparr>),
      database_drop_collection =
        (\<lambda>c d n w. w\<lparr>names := map (\<lambda>p. if fst p = d then (d, removeAll n (snd p)) else p) (names w)\<rparr>),
      insert_one =
        (\<lambda>h d w. let (ids, w') = stub_insert [d] w
                 in (InsertOneResult (case ids of [] \<Rightarrow> None | i # rest \<Rightarrow> Some i), w')),
      insert_many = (\<lambda>h ds w. let (ids, w') = stub_insert ds w in (InsertManyResult ids, w')),
      replace_one = (\<lambda>h f r u w. stub_modify w),
      update_one = (\<lambda>h f r u w. stub_modify w),
      update_many = (\<lambda>h f r u w. stub_modify w),
      delete_one = (\<lambda>h f w. (DeleteResult (min 1 (length (docs w))), w\<lparr>docs := tl (docs w)\<rparr>)),
      delete_many = (\<lambda>h f w. (DeleteResult (length (docs w)), w\<lparr>docs := []\<rparr>)),
      collection_find = (\<lambda>h f p sk li so w. (docs w, w)),
      find_one = (\<lambda>h f p sk so w. stub_first w),
      find_one_and_delete = (\<lambda>h f p sk so w. (fst (stub_first w), w\<lparr>docs := tl (docs w)\<rparr>)),
      find_one_and_replace = (\<lambda>h f r u p sk so rd w. stub_first w),
      find_one_and_update = (\<lambda>h f r u p sk so rd w. stub_first w),
      count_documents = (\<lambda>h f sk li w. (length (docs w), w)),
      collection_distinct = (\<lambda>h k f w. ([], w))\<rparr>"

text \<open>
  An object that selects database \<^verbatim>\<open>d\<close> and collection \<^verbatim>\<open>c\<close> over the default
  connection, and a server on which both exist, with one stored document.
\<close>

definition obj_dc :: mongobject where
  "obj_dc =
     \<lparr>inst = \<lparr>host_arg = None, port_arg = None, ssl_arg = Some True\<rparr>,
      database = Some ''d'', collection = Some ''c''\<rparr>"

definition server_dc :: stub_world where
  "server_dc =
     \<lparr>names = [(''d'', [''c''])], docs = [[(''_id'', 7), (''a'', 1)]],
      answers = [UpdateResult 3 1, UpdateResult 1 1]\<rparr>"

section \<open>Properties\<close>

subsection \<open>The concrete run\<close>

lemma stub_active: "check_collection stub obj_dc server_dc = Inr True"
  by (simp add: check_collection_def check_database_def get_database_def get_collection_def
      stub_def obj_dc_def server_dc_def)

lemma stub_handle: "coll_handle obj_dc = Inr (inst obj_dc, ''d'', ''c'')"
  by (simp add: coll_handle_def get_database_def get_collection_def obj_dc_def)

lemma stub_active_answers:
  "check_collection stub obj_dc (server_dc\<lparr>answers := as\<rparr>) = Inr True"
  by (simp add: check_collection_def check_database_def get_database_def get_collection_def
      stub_def obj_dc_def server_dc_def)

text \<open>
  When the check of the collection succeeds, both attributes are set, both names are
  known to the client, and the handle of the collection can be formed.
\<close>

lemma active_check:
  assumes "check_collection drv s w = Inr True"
  shows "\<exists>d c ds cs. coll_handle s = Inr (inst s, d, c) \<and> database s = Some d \<and> collection s = Some c
     \<and> keys drv (inst s) w = Inr ds \<and> d \<in> set ds
     \<and> database_keys drv (inst s) d w = Inr cs \<and> c \<in> set cs"
  using assms
  by (auto simp: check_collection_def check_database_def coll_handle_def get_database_def
      get_collection_def split: option.splits sum.splits if_splits)

subsection \<open>insert\<close>

text \<open>
  Claim C9. \<^verbatim>\<open>insert\<close> called with an empty document or an empty list returns false and
  makes no call on the client: the result is \<^verbatim>\<open>False\<close> and the state of the servers is the
  one it was given, for every client and every object, whether or not a database and a
  collection are selected and exist. (The existence check is not evaluated either.)
\<close>

theorem insert_empty:
  "insert_m drv (PyDict []) s w = (Inr False, w) \<and> insert_m drv (PyList []) s w = (Inr False, w)"
  by (simp add: insert_m_def)

subsection \<open>The return rules, on a client whose existence check answers true\<close>

text \<open>
  The lemmas of this part are about a client that answers \<open>keys\<close> with names, as the stored
  server of the concrete runs does. They give what each writing method returns once
  \<^verbatim>\<open>_check_collection\<close> has answered true.

  \<^verbatim>\<open>insert\<close> called with a list of exactly one document makes the single-document call
  \<^verbatim>\<open>insert_one\<close> on that document and returns true iff the result carries an identifier.
\<close>

lemma insert_singleton_list:
  assumes "check_collection drv s w = Inr True" and "coll_handle s = Inr h"
  shows "insert_m drv (PyList [d]) s w =
     (Inr (inserted_id (fst (insert_one drv h d w)) \<noteq> None), snd (insert_one drv h d w))"
  using assms by (simp add: insert_m_def split: prod.splits)

lemma insert_singleton_list_stub:
  "check_collection stub obj_dc server_dc = Inr True
   \<and> coll_handle obj_dc = Inr (inst obj_dc, ''d'', ''c'')
   \<and> insert_m stub (PyList [[(''a'', 5)]]) obj_dc server_dc =
       (Inr True, server_dc\<lparr>docs := [[(''_id'', 7), (''a'', 1)], [(''_id'', 1), (''a'', 5)]]\<rparr>)"
  using insert_singleton_list [OF stub_active stub_handle, of "[(''a'', 5)]"] stub_active stub_handle
  by (simp add: stub_def stub_insert_def server_dc_def)

text \<open>
  \<^verbatim>\<open>insert\<close> with a single document returns true iff the client produces an identifier
  for it: for a document with a field the result is that of \<^verbatim>\<open>inserted_id is not None\<close> on
  the \<^verbatim>\<open>insert_one\<close> call; for the document without fields no call is made, no identifier
  is produced, and the result is false. With a list of two or more documents it returns
  true iff the number of identifiers \<^verbatim>\<open>insert_many\<close> reports equals the number of
  documents.
\<close>

lemma insert_result:
  assumes "check_collection drv s w = Inr True" and "coll_handle s = Inr h"
  shows "insert_m drv (PyDict d) s w =
      (if d = [] then (Inr False, w)
       else (Inr (inserted_id (fst (insert_one drv h d w)) \<noteq> None), snd (insert_one drv h d w)))
   \<and> (2 \<le> length ds \<longrightarrow> insert_m drv (PyList ds) s w =
      (Inr (length (inserted_ids (fst (insert_many drv h ds w))) = length ds),
       snd (insert_many drv h ds w)))"
  using assms by (auto simp: insert_m_def split: prod.splits)

lemma insert_result_stub:
  "check_collection stub obj_dc server_dc = Inr True
   \<and> coll_handle obj_dc = Inr (inst obj_dc, ''d'', ''c'')
   \<and> insert_m stub (PyDict [(''a'', 5)]) obj_dc server_dc =
       (Inr True, server_dc\<lparr>docs := [[(''_id'', 7), (''a'', 1)], [(''_id'', 1), (''a'', 5)]]\<rparr>)
   \<and> (2::nat) \<le> length [[(''a'', 5)], [(''b'', 6::int)]]
   \<and> insert_m stub (PyList [[(''a'', 5)], [(''b'', 6)]]) obj_dc server_dc =
       (Inr True, server_dc\<lparr>docs := [[(''_id'', 7), (''a'', 1)], [(''_id'', 1), (''a'', 5)],
                                        [(''_id'', 2), (''b'', 6)]]\<rparr>)"
  using insert_result [OF stub_active stub_handle, of "[(''a'', 5)]" "[[(''a'', 5)], [(''b'', 6)]]"]
    stub_active stub_handle
  by (simp add: stub_def stub_insert_def server_dc_def upt_rec)

text \<open>
  \<^verbatim>\<open>update\<close> and \<^verbatim>\<open>replace\<close> called with \<^verbatim>\<open>only_one=True\<close> make one single-document call
  (\<^verbatim>\<open>update_one\<close>, \<^verbatim>\<open>replace_one\<close>) and return true iff its modified count is 1;
  \<^verbatim>\<open>update\<close> called with \<^verbatim>\<open>only_one=False\<close> makes one \<^verbatim>\<open>update_many\<close> call and returns
  true iff its modified count equals its matched count.
\<close>

lemma update_replace_result:
  assumes "check_collection drv s w = Inr True" and "coll_handle s = Inr h"
  shows "update drv flt upd upsert True s w =
      (Inr (modified_count (fst (update_one drv h flt upd upsert w)) = 1),
       snd (update_one drv h flt upd upsert w))
   \<and> replace drv flt replacement upsert True s w =
      Some (Inr (modified_count (fst (replace_one drv h flt replacement upsert w)) = 1),
            snd (replace_one drv h flt replacement upsert w))
   \<and> update drv flt upd upsert False s w =
      (Inr (modified_count (fst (update_many drv h flt upd upsert w)) =
            matched_count (fst (update_many drv h flt upd upsert w))),
       snd (update_many drv h flt upd upsert w))"
  using assms by (simp add: update_def replace_def split: prod.splits)

lemma update_replace_result_stub:
  "check_collection stub obj_dc server_dc = Inr True
   \<and> coll_handle obj_dc = Inr (inst obj_dc, ''d'', ''c'')
   \<and> update stub [] [(''a'', 2)] False True obj_dc server_dc =
       (Inr True, server_dc\<lparr>answers := [UpdateResult 1 1]\<rparr>)
   \<and> replace stub [] [(''a'', 2)] False True obj_dc server_dc =
       Some (Inr True, server_dc\<lparr>answers := [UpdateResult 1 1]\<rparr>)
   \<and> update stub [] [(''a'', 2)] False False obj_dc server_dc =
       (Inr False, server_dc\<lparr>answers := [UpdateResult 1 1]\<rparr>)"
  using update_replace_result [OF stub_active stub_handle, of "[]" "[(''a'', 2)]" False "[(''a'', 2)]"]
    stub_active stub_handle
  by (simp add: stub_def stub_modify_def server_dc_def)

text \<open>
  While no call has decided, the loop of \<^verbatim>\<open>replace\<close> goes on from the state the calls
  have left.
\<close>

lemma replace_loop_rounds:
  assumes "\<forall>i<n. matched_count (round_result drv h flt rep ups i w) \<noteq>
                 modified_count (round_result drv h flt rep ups i w) \<and>
                 modified_count (round_result drv h flt rep ups i w) \<noteq> 0"
  shows "replace_loop drv h flt rep ups w =
         replace_loop drv h flt rep ups (replace_rounds drv h flt rep ups n w)"
  using assms
proof (induction n arbitrary: w)
  case 0
  show ?case by simp
next
  case (Suc n)
  let ?w1 = "snd (replace_one drv h flt rep ups w)"
  from Suc.prems have first: "matched_count (round_result drv h flt rep ups 0 w) \<noteq>
      modified_count (round_result drv h flt rep ups 0 w) \<and>
      modified_count (round_result drv h flt rep ups 0 w) \<noteq> 0"
    by blast
  have step: "replace_loop drv h flt rep ups w = replace_loop drv h flt rep ups ?w1"
    using first by (subst replace_loop.simps) (simp add: round_result_def Let_def)
  have shift: "round_result drv h flt rep ups i ?w1 = round_result drv h flt rep ups (Suc i) w" for i
    by (simp add: round_result_def)
  have "\<forall>i<n. matched_count (round_result drv h flt rep ups i ?w1) \<noteq>
                 modified_count (round_result drv h flt rep ups i ?w1) \<and>
                 modified_count (round_result drv h flt rep ups i ?w1) \<noteq> 0"
    using Suc.prems by (simp add: shift)
  from Suc.IH [OF this] step show ?case by simp
qed

lemma replace_rounds_Suc_right:
  "replace_rounds drv h flt rep ups (Suc n) w =
   snd (replace_one drv h flt rep ups (replace_rounds drv h flt rep ups n w))"
  by (induction n arbitrary: w) simp_all

text \<open>
  With \<^verbatim>\<open>only_one=False\<close>, \<^verbatim>\<open>replace\<close>
  issues \<^verbatim>\<open>replace_one\<close> calls one after the other. Let call number \<open>n\<close> be the first that
  decides, its predecessors having reported a matched count different from the modified
  count and a modified count other than zero. If its matched count equals its modified
  count, \<^verbatim>\<open>replace\<close> returns true; if it matched at least one document and modified none,
  \<^verbatim>\<open>replace\<close> returns false; in both cases after exactly \<open>n + 1\<close> calls.
\<close>

lemma replace_batch:
  assumes "check_collection drv s w = Inr True" and "coll_handle s = Inr h"
    and "\<forall>i<n. matched_count (round_result drv h flt rep ups i w) \<noteq>
                 modified_count (round_result drv h flt rep ups i w) \<and>
                 modified_count (round_result drv h flt rep ups i w) \<noteq> 0"
  shows "(matched_count (round_result drv h flt rep ups n w) =
          modified_count (round_result drv h flt rep ups n w) \<longrightarrow>
          replace drv flt rep ups False s w =
            Some (Inr True, replace_rounds drv h flt rep ups (Suc n) w))
       \<and> (0 < matched_count (round_result drv h flt rep ups n w) \<and>
          modified_count (round_result drv h flt rep ups n w) = 0 \<longrightarrow>
          replace drv flt rep ups False s w =
            Some (Inr False, replace_rounds drv h flt rep ups (Suc n) w))"
proof -
  let ?wn = "replace_rounds drv h flt rep ups n w"
  let ?r = "fst (replace_one drv h flt rep ups ?wn)"
  have loop: "replace_loop drv h flt rep ups w = replace_loop drv h flt rep ups ?wn"
    using assms(3) by (rule replace_loop_rounds)
  have rep: "replace drv flt rep ups False s w =
      map_option (\<lambda>(r, w'). (Inr r, w')) (replace_loop drv h flt rep ups ?wn)"
    using assms(1,2) loop by (simp add: replace_def)
  have last: "replace_loop drv h flt rep ups ?wn =
      (if matched_count ?r = modified_count ?r
       then Some (True, snd (replace_one drv h flt rep ups ?wn))
       else if modified_count ?r = 0
       then Some (False, snd (replace_one drv h flt rep ups ?wn))
       else replace_loop drv h flt rep ups (snd (replace_one drv h flt rep ups ?wn)))"
    by (subst replace_loop.simps) (simp add: Let_def)
  show ?thesis
    unfolding rep last replace_rounds_Suc_right round_result_def by auto
qed

lemma replace_batch_stub:
  "check_collection stub obj_dc server_dc = Inr True
   \<and> coll_handle obj_dc = Inr (inst obj_dc, ''d'', ''c'')
   \<and> round_result stub (inst obj_dc, ''d'', ''c'') [] [(''a'', 2)] False 0 server_dc = UpdateResult 3 1
   \<and> round_result stub (inst obj_dc, ''d'', ''c'') [] [(''a'', 2)] False 1 server_dc = UpdateResult 1 1
   \<and> replace stub [] [(''a'', 2)] False False obj_dc server_dc =
       Some (Inr True, server_dc\<lparr>answers := []\<rparr>)
   \<and> round_result stub (inst obj_dc, ''d'', ''c'') [] [(''a'', 2)] False 0
       (server_dc\<lparr>answers := [UpdateResult 1 0]\<rparr>) = UpdateResult 1 0
   \<and> replace stub [] [(''a'', 2)] False False obj_dc (server_dc\<lparr>answers := [UpdateResult 1 0]\<rparr>) =
       Some (Inr False, server_dc\<lparr>answers := []\<rparr>)"
proof -
  let ?h = "(inst obj_dc, ''d'', ''c'')"
  let ?v = "server_dc\<lparr>answers := [UpdateResult 1 0]\<rparr>"
  have r0: "round_result stub ?h [] [(''a'', 2)] False 0 server_dc = UpdateResult 3 1"
    by (simp add: round_result_def stub_def stub_modify_def server_dc_def)
  have r1: "round_result stub ?h [] [(''a'', 2)] False 1 server_dc = UpdateResult 1 1"
    by (simp add: round_result_def stub_def stub_modify_def server_dc_def)
  have w2: "replace_rounds stub ?h [] [(''a'', 2)] False (Suc 1) server_dc = server_dc\<lparr>answers := []\<rparr>"
    by (simp add: stub_def stub_modify_def server_dc_def)
  have pre: "\<forall>i<1. matched_count (round_result stub ?h [] [(''a'', 2)] False i server_dc) \<noteq>
                 modified_count (round_result stub ?h [] [(''a'', 2)] False i server_dc) \<and>
                 modified_count (round_result stub ?h [] [(''a'', 2)] False i server_dc) \<noteq> 0"
    using r0 by simp
  have q0: "round_result stub ?h [] [(''a'', 2)] False 0 ?v = UpdateResult 1 0"
    by (simp add: round_result_def stub_def stub_modify_def server_dc_def)
  have v1: "replace_rounds stub ?h [] [(''a'', 2)] False (Suc 0) ?v = server_dc\<lparr>answers := []\<rparr>"
    by (simp add: stub_def stub_modify_def server_dc_def)
  have none: "\<forall>i<0. matched_count (round_result stub ?h [] [(''a'', 2)] False i ?v) \<noteq>
                 modified_count (round_result stub ?h [] [(''a'', 2)] False i ?v) \<and>
                 modified_count (round_result stub ?h [] [(''a'', 2)] False i ?v) \<noteq> 0"
    by simp
  from replace_batch [OF stub_active stub_handle pre]
    replace_batch [OF stub_active_answers [of "[UpdateResult 1 0]"] stub_handle none]
    r0 r1 w2 q0 v1 stub_active stub_handle
  show ?thesis by simp
qed

subsection \<open>The writing methods on the client of pymongo\<close>

text \<open>
  On the client the class builds, the existence check raises as soon as a database is
  selected: line 92 calls \<^verbatim>\<open>keys()\<close> on the client.
\<close>

lemma no_keys_check:
  "check_database (no_keys drv) \<lparr>inst = c, database = Some d, collection = coll\<rparr> w = Inl TypeError"
  "check_collection (no_keys drv) \<lparr>inst = c, database = Some d, collection = coll\<rparr> w = Inl TypeError"
  by (simp_all add: check_collection_def check_database_def get_database_def no_keys_def)

text \<open>
  The other methods that start with the check end the same way, the object and the
  servers left as they were.
\<close>

lemma no_keys_other_operations:
  "drop_database (no_keys drv) \<lparr>inst = c, database = Some d, collection = coll\<rparr> w = (Inl TypeError, w)"
  "drop_collection (no_keys drv) \<lparr>inst = c, database = Some d, collection = coll\<rparr> w = (Inl TypeError, w)"
  "delete (no_keys drv) flt only_one \<lparr>inst = c, database = Some d, collection = coll\<rparr> w =
     (Inl TypeError, w)"
  "find_m (no_keys drv) flt proj skip limit srt fo doc ups rdb
     \<lparr>inst = c, database = Some d, collection = coll\<rparr> w = (Inl TypeError, w)"
  "count (no_keys drv) flt skip limit \<lparr>inst = c, database = Some d, collection = coll\<rparr> w =
     (Inl TypeError, w)"
  "distinct_m (no_keys drv) key fltd \<lparr>inst = c, database = Some d, collection = coll\<rparr> w =
     (Inl TypeError, w)"
  by (simp_all add: no_keys_check drop_database_def drop_collection_def delete_def find_m_def
      find_in_def count_def distinct_m_def)

text \<open>
  Claim C5 asks that, with an active database and collection, \<^verbatim>\<open>update\<close> and \<^verbatim>\<open>replace\<close>
  with \<^verbatim>\<open>only_one=True\<close> return true iff exactly one document was modified, and \<^verbatim>\<open>update\<close>
  with \<^verbatim>\<open>only_one=False\<close> iff the modified count equals the matched count. On the client of
  pymongo the code returns nothing of the kind: whatever the server holds, with a
  database selected \<^verbatim>\<open>update\<close> (in both modes) and \<^verbatim>\<open>replace\<close> with \<^verbatim>\<open>only_one=True\<close> raise
  \<^verbatim>\<open>TypeError\<close> in the existence check, and no update or replace call is made: the servers
  are left as they were.
\<close>

theorem update_replace_raises:
  "update (no_keys drv) flt upd upsert only_one
     \<lparr>inst = c, database = Some d, collection = coll\<rparr> w = (Inl TypeError, w)
   \<and> replace (no_keys drv) flt replacement upsert True
     \<lparr>inst = c, database = Some d, collection = coll\<rparr> w = Some (Inl TypeError, w)"
  by (simp add: no_keys_check update_def replace_def)

text \<open>
  Claim C6 asks that, with an active database and collection, \<^verbatim>\<open>insert\<close> with a single
  document return true iff an identifier is produced, and with two or more documents iff
  as many identifiers as documents are. On the client of pymongo, with a database
  selected, \<^verbatim>\<open>insert\<close> with a document that has a field and \<^verbatim>\<open>insert\<close> with a list of two
  or more documents raise \<^verbatim>\<open>TypeError\<close> in the existence check, and no insert call is
  made: the servers are left as they were.
\<close>

theorem insert_raises:
  "insert_m (no_keys drv) (PyDict (kv # d))
     \<lparr>inst = c, database = Some db, collection = coll\<rparr> w = (Inl TypeError, w)
   \<and> insert_m (no_keys drv) (PyList (d1 # d2 # ds))
     \<lparr>inst = c, database = Some db, collection = coll\<rparr> w = (Inl TypeError, w)"
  by (simp add: no_keys_check insert_m_def)

text \<open>
  Claim C7 asks that, with an active database and collection and \<^verbatim>\<open>only_one=False\<close>,
  \<^verbatim>\<open>replace\<close> issue \<^verbatim>\<open>replace_one\<close> calls until one decides. On the client of pymongo, with
  a database selected, \<^verbatim>\<open>replace\<close> with \<^verbatim>\<open>only_one=False\<close> returns at once, raising
  \<^verbatim>\<open>TypeError\<close> in the existence check: the loop is not entered and no \<^verbatim>\<open>replace_one\<close>
  call is made, the servers being left as they were.
\<close>

theorem replace_batch_raises:
  "replace (no_keys drv) flt replacement upsert False
     \<lparr>inst = c, database = Some d, collection = coll\<rparr> w = Some (Inl TypeError, w)"
  by (simp add: no_keys_check replace_def)

text \<open>
  Claim C10 asks that \<^verbatim>\<open>insert\<close> with a list of exactly one document make the
  single-document call and return true iff an identifier is produced. On the client of
  pymongo, with a database selected, \<^verbatim>\<open>insert\<close> with a one-element list raises
  \<^verbatim>\<open>TypeError\<close> in the existence check and does not reach \<^verbatim>\<open>insert_one(data[0])\<close>: the
  servers are left as they were.
\<close>

theorem insert_singleton_list_raises:
  "insert_m (no_keys drv) (PyList [d])
     \<lparr>inst = c, database = Some db, collection = coll\<rparr> w = (Inl TypeError, w)"
  by (simp add: no_keys_check insert_m_def)

subsection \<open>Connecting\<close>

text \<open>
  Claim C8, as the code has it. Construction and \<^verbatim>\<open>set_instance\<close> both install the client
  that \<^verbatim>\<open>_connect_database\<close> resolves, with this precedence: a URI that starts with
  \<^verbatim>\<open>mongodb://\<close> wins; else a non-empty host with a non-zero port; else a non-empty host
  alone, wrapped as \<^verbatim>\<open>mongodb://<host>/?ssl=true\<close>; else, when host and URI are both absent
  or empty, the parameterless default connection. Every client so made requests an
  encrypted transport.
\<close>

theorem connect_database_precedence:
  "(prefix ''mongodb://'' u \<longrightarrow>
      connect_database (Some u) host port =
        Inr \<lparr>host_arg = Some u, port_arg = None, ssl_arg = Some True\<rparr>)
   \<and> (\<not> uri_with_scheme uri \<and> h \<noteq> [] \<and> p \<noteq> 0 \<longrightarrow>
      connect_database uri (Some h) (Some p) =
        Inr \<lparr>host_arg = Some h, port_arg = Some p, ssl_arg = Some True\<rparr>)
   \<and> (\<not> uri_with_scheme uri \<and> h \<noteq> [] \<and> \<not> truthy_int port \<longrightarrow>
      connect_database uri (Some h) port =
        Inr \<lparr>host_arg = Some (''mongodb://'' @ h @ ''/?ssl=true''), port_arg = None, ssl_arg = None\<rparr>)
   \<and> (\<not> truthy_str uri \<and> \<not> truthy_str host \<longrightarrow>
      connect_database uri host port =
        Inr \<lparr>host_arg = None, port_arg = None, ssl_arg = Some True\<rparr>)
   \<and> (connect_database uri host port = Inr c \<longrightarrow> requests_ssl c)
   \<and> map_sum id inst (init uri host port db coll) = connect_database uri host port
   \<and> map_sum id inst (fst (set_instance drv uri host port s w)) = connect_database uri host port"
proof -
  have a: "\<not> truthy_str uri \<Longrightarrow> \<not> uri_with_scheme uri"
    by (cases uri) (auto simp: uri_with_scheme_def)
  have ssl: "connect_database uri host port = Inr c \<Longrightarrow> requests_ssl c"
    by (auto simp: connect_database_def requests_ssl_def suffix_def split: if_splits option.splits)
  have i: "map_sum id inst (init uri host port db coll) = connect_database uri host port"
    by (simp add: init_def split: sum.splits)
  have si: "map_sum id inst (fst (set_instance drv uri host port s w)) = connect_database uri host port"
    by (simp add: set_instance_def Let_def split: sum.splits)
  show ?thesis
    using a ssl i si by (simp add: connect_database_def uri_with_scheme_def)
qed

theorem connect_database_precedence_witness:
  "prefix ''mongodb://'' ''mongodb://db.example.net''
   \<and> connect_database (Some ''mongodb://db.example.net'') (Some ''localhost'') (Some 27017) =
        Inr \<lparr>host_arg = Some ''mongodb://db.example.net'', port_arg = None, ssl_arg = Some True\<rparr>
   \<and> \<not> uri_with_scheme None \<and> ''localhost'' \<noteq> [] \<and> (27017::int) \<noteq> 0
   \<and> connect_database None (Some ''localhost'') (Some 27017) =
        Inr \<lparr>host_arg = Some ''localhost'', port_arg = Some 27017, ssl_arg = Some True\<rparr>
   \<and> \<not> truthy_int None
   \<and> connect_database None (Some ''localhost'') None =
        Inr \<lparr>host_arg = Some ''mongodb://localhost/?ssl=true'', port_arg = None, ssl_arg = None\<rparr>
   \<and> requests_ssl \<lparr>host_arg = Some ''mongodb://localhost/?ssl=true'', port_arg = None, ssl_arg = None\<rparr>
   \<and> \<not> truthy_str None
   \<and> connect_database None None None = Inr \<lparr>host_arg = None, port_arg = None, ssl_arg = Some True\<rparr>"
  using connect_database_precedence [where u = "''mongodb://db.example.net''"
      and host = "Some ''localhost''" and port = "Some 27017" and uri = None
      and h = "''localhost''" and p = 27017
      and c = "\<lparr>host_arg = Some ''localhost'', port_arg = Some 27017, ssl_arg = Some True\<rparr>"
      and db = None and coll = None and drv = stub and s = obj_dc and w = server_dc]
    connect_database_precedence [where u = "''mongodb://db.example.net''"
      and host = "Some ''localhost''" and port = None and uri = None
      and h = "''localhost''" and p = 27017
      and c = "\<lparr>host_arg = Some ''mongodb://localhost/?ssl=true'', port_arg = None, ssl_arg = None\<rparr>"
      and db = None and coll = None and drv = stub and s = obj_dc and w = server_dc]
    connect_database_precedence [where u = "''mongodb://db.example.net''"
      and host = None and port = None and uri = None
      and h = "''localhost''" and p = 27017
      and c = "\<lparr>host_arg = None, port_arg = None, ssl_arg = Some True\<rparr>"
      and db = None and coll = None and drv = stub and s = obj_dc and w = server_dc]
  by (simp add: uri_with_scheme_def)

text \<open>
  Claim C8, as the specification words it, fails: a URI of another scheme, given together
  with a host and a port, does not win. The client is made from the host and the port.
\<close>

theorem connect_database_counterexample:
  "connect_database (Some ''mongodb+srv://db.example.net'') (Some ''localhost'') (Some 27017) =
     Inr \<lparr>host_arg = Some ''localhost'', port_arg = Some 27017, ssl_arg = Some True\<rparr>
   \<and> connect_database (Some ''mongodb+srv://db.example.net'') (Some ''localhost'') (Some 27017) \<noteq>
     Inr (resolve_spec (Some ''mongodb+srv://db.example.net'') (Some ''localhost'') (Some 27017))"
  by (simp add: connect_database_def resolve_spec_def uri_with_scheme_def)

text \<open>
  A URI without the scheme and no host: the third branch concatenates \<^verbatim>\<open>None\<close> and the
  call raises.
\<close>

lemma connect_database_uri_without_scheme:
  "connect_database (Some ''db.example.net'') None port = Inl TypeError"
  by (simp add: connect_database_def uri_with_scheme_def)

subsection \<open>Operations without a resolved selection\<close>

text \<open>
  When both attributes are set and the check of the collection answers false (the
  database or the collection is not known to the client), every data operation returns
  its failure value and leaves the servers as they were.
\<close>

lemma unresolved_selection_fails:
  assumes "check_collection drv s w = Inr False"
  shows "insert_m drv data s w = (Inr False, w)"
    and "replace drv flt rep ups only_one s w = Some (Inr False, w)"
    and "update drv flt upd ups only_one s w = (Inr False, w)"
    and "delete drv flt only_one s w = (Inr False, w)"
    and "find_m drv flt proj skip limit srt fo doc ups rdb s w = (Inr [], w)"
    and "count drv flt skip limit s w = (Inr (- 1), w)"
    and "distinct_m drv key fltd s w = (Inr [], w)"
  using assms
  by (simp_all add: insert_m_def replace_def update_def delete_def find_m_def find_in_def
      count_def distinct_m_def)

lemma unset_database_check:
  "check_collection drv \<lparr>inst = c, database = None, collection = coll\<rparr> w = Inl AttributeError"
  by (simp add: check_collection_def check_database_def get_database_def)

lemma unset_collection_check:
  assumes "keys drv c w = Inr ds" and "d \<in> set ds"
  shows "check_collection drv \<lparr>inst = c, database = Some d, collection = None\<rparr> w =
         Inl AttributeError"
  using assms
  by (simp add: check_collection_def check_database_def get_database_def get_collection_def)

text \<open>
  Claim C1 asks for the failure value when no database is selected. The code raises
  instead: an object constructed without a database (\<^verbatim>\<open>Mongobject()\<close>) has no attribute
  \<^verbatim>\<open>database\<close>, and each of the seven data operations, reading it in the existence check,
  ends in \<^verbatim>\<open>AttributeError\<close> (\<^verbatim>\<open>insert\<close> when its data is not empty). The servers are left
  as they were.
\<close>

theorem unselected_database_raises:
  "init None None None None None =
     Inr \<lparr>inst = \<lparr>host_arg = None, port_arg = None, ssl_arg = Some True\<rparr>,
          database = None, collection = None\<rparr>
   \<and> insert_m drv (PyDict [(k, v)]) \<lparr>inst = c, database = None, collection = coll\<rparr> w =
       (Inl AttributeError, w)
   \<and> replace drv flt rep ups only_one \<lparr>inst = c, database = None, collection = coll\<rparr> w =
       Some (Inl AttributeError, w)
   \<and> update drv flt upd ups only_one \<lparr>inst = c, database = None, collection = coll\<rparr> w =
       (Inl AttributeError, w)
   \<and> delete drv flt only_one \<lparr>inst = c, database = None, collection = coll\<rparr> w =
       (Inl AttributeError, w)
   \<and> find_m drv flt proj skip limit srt fo doc ups rdb
        \<lparr>inst = c, database = None, collection = coll\<rparr> w = (Inl AttributeError, w)
   \<and> count drv flt skip limit \<lparr>inst = c, database = None, collection = coll\<rparr> w =
       (Inl AttributeError, w)
   \<and> distinct_m drv key fltd \<lparr>inst = c, database = None, collection = coll\<rparr> w =
       (Inl AttributeError, w)"
  by (simp add: unset_database_check init_def connect_database_def uri_with_scheme_def
      insert_m_def replace_def update_def delete_def find_m_def find_in_def count_def distinct_m_def)

subsection \<open>Dropping\<close>

text \<open>
  The setters ignore \<^verbatim>\<open>None\<close>, so the calls \<^verbatim>\<open>set_database(None)\<close> and
  \<^verbatim>\<open>set_collection(None)\<close> that end the drop methods change nothing: a drop that goes
  through returns the object with the attributes it had.
\<close>

lemma drop_keeps_attributes:
  "check_database drv s w = Inr True \<Longrightarrow> fst (drop_database drv s w) = Inr s"
  "check_collection drv s w = Inr True \<Longrightarrow> fst (drop_collection drv s w) = Inr s"
  by (auto simp: drop_database_def drop_collection_def set_database_def set_collection_def
      check_database_def check_collection_def coll_handle_def
      split: sum.splits if_splits)

text \<open>
  Claim C2 asks that \<^verbatim>\<open>drop_database\<close> clear both selections and \<^verbatim>\<open>drop_collection\<close> the
  collection selection. On an object that selects the existing database \<^verbatim>\<open>d\<close> and
  collection \<^verbatim>\<open>c\<close> the code drops the database on the server and keeps both attributes:
  \<^verbatim>\<open>get_database\<close> still answers \<^verbatim>\<open>d\<close> and \<^verbatim>\<open>get_collection\<close> still answers \<^verbatim>\<open>c\<close>. The
  insert that follows returns false, the database being gone from the server.
  \<^verbatim>\<open>drop_collection\<close> keeps the collection attribute in the same way.
\<close>

theorem drop_run:
  "drop_database stub obj_dc server_dc = (Inr obj_dc, server_dc\<lparr>names := []\<rparr>)
   \<and> get_database obj_dc = Inr ''d'' \<and> get_collection obj_dc = Inr ''c''
   \<and> insert_m stub (PyDict [(''a'', 1)]) obj_dc (server_dc\<lparr>names := []\<rparr>) =
       (Inr False, server_dc\<lparr>names := []\<rparr>)
   \<and> drop_collection stub obj_dc server_dc = (Inr obj_dc, server_dc\<lparr>names := [(''d'', [])]\<rparr>)"
  by (simp add: drop_database_def drop_collection_def set_database_def set_collection_def
      check_database_def check_collection_def coll_handle_def get_database_def get_collection_def
      insert_m_def stub_def obj_dc_def server_dc_def)

subsection \<open>find\<close>

text \<open>
  With an active database and collection, \<^verbatim>\<open>find\<close> raises whatever the selector is: the
  first comparison reads \<^verbatim>\<open>Mongobject.FIND\<close>, which the class does not have.
\<close>

lemma find_raises:
  assumes "check_collection drv s w = Inr True"
  shows "find_m drv flt proj skip limit srt fo doc ups rdb s w = (Inl AttributeError, w)"
proof -
  from active_check [OF assms] obtain h where "coll_handle s = Inr h"
    by blast
  with assms show ?thesis
    by (simp add: find_m_def find_in_def class_attrs_def getattr_def)
qed

text \<open>
  Were the five names attributes of the class, the loop over the cursor would still file
  every document under the key \<^verbatim>\<open>None\<close>: the identifier is read after it is deleted.
\<close>

lemma dict_set_keys: "fst ` set (dict_set d k v) = insert k (fst ` set d)"
  by (induction d) auto

lemma process_cursor_keys:
  "process_cursor acc ds = Inr r \<Longrightarrow> fst ` set r \<subseteq> insert None (fst ` set acc)"
proof (induction ds arbitrary: acc)
  case Nil
  then show ?case by auto
next
  case (Cons res rest)
  from Cons.prems obtain dic where del: "dict_del res ''_id'' = Inr dic"
    and rec: "process_cursor (dict_set acc (dict_get dic ''_id'') dic) rest = Inr r"
    by (auto split: sum.splits)
  from del have "dict_get dic ''_id'' = None"
    by (auto simp: dict_del_def dict_get_def map_of_eq_None_iff split: if_splits)
  with Cons.IH [OF rec] show ?case by (auto simp: dict_set_keys)
qed

text \<open>
  Claim C3 asks that \<^verbatim>\<open>find\<close> in plain mode return each matching document under its
  identifier. On a collection that holds the document \<^verbatim>\<open>{'_id': 7, 'a': 1}\<close> the code,
  called with the selector 1, raises \<^verbatim>\<open>AttributeError\<close>, where the claim has the mapping
  \<^verbatim>\<open>{7: {'a': 1}}\<close>. With the names of \<^verbatim>\<open>__init__\<close> for a namespace the same call returns
  \<^verbatim>\<open>{None: {'a': 1}}\<close>.
\<close>

theorem find_plain_run:
  "find_m stub [] None 0 0 None 1 [] False True obj_dc server_dc = (Inl AttributeError, server_dc)
   \<and> collection_find stub (inst obj_dc, ''d'', ''c'') [] None 0 0 None server_dc =
       ([[(''_id'', 7), (''a'', 1)]], server_dc)
   \<and> find_in init_locals stub [] None 0 0 None 1 [] False True obj_dc server_dc =
       (Inr [(None, [(''a'', 1)])], server_dc)"
  by (simp add: find_m_def find_in_def class_attrs_def init_locals_def getattr_def
      check_database_def check_collection_def coll_handle_def get_database_def get_collection_def
      dict_del_def dict_get_def stub_def obj_dc_def server_dc_def)

text \<open>
  Claim C4 asks that no operation raise, and that \<^verbatim>\<open>find\<close> with a selector outside the
  five modes return the empty mapping while a valid collection is selected. On the object
  that selects the existing database \<^verbatim>\<open>d\<close> and collection \<^verbatim>\<open>c\<close> the code, called with the
  selector 7, raises \<^verbatim>\<open>AttributeError\<close>. With the names of \<^verbatim>\<open>__init__\<close> for a namespace
  the same call reaches the last branch and returns the empty mapping.
\<close>

theorem find_invalid_selector_run:
  "check_collection stub obj_dc server_dc = Inr True
   \<and> find_m stub [] None 0 0 None 7 [] False True obj_dc server_dc = (Inl AttributeError, server_dc)
   \<and> find_in init_locals stub [] None 0 0 None 7 [] False True obj_dc server_dc = (Inr [], server_dc)"
  by (simp add: find_m_def find_in_def class_attrs_def init_locals_def getattr_def
      check_database_def check_collection_def coll_handle_def get_database_def get_collection_def
      stub_def obj_dc_def server_dc_def)

end
